theory Spec2Isabelle
  imports Main
begin

section \<open>Data model of the collaboration service\<close>

text \<open>
  The real-time collaboration core is the class \<open>CollaborationHandler\<close>: one instance of
  it per server process holds the Socket.IO server \<open>io\<close>, the Redis client used as
  presence store, the Redis publisher and subscriber used as event relay, and the map
  \<open>activeUsers\<close>. Documents live in MongoDB behind the Mongoose model \<open>Document\<close>.

  Identifiers are the strings and numbers of the JavaScript source. A version is a
  JavaScript number that holds an integer.
\<close>

type_synonym documentId = string
type_synonym socketId = string
type_synonym userId = int

text \<open>The Mongoose schema of a document: the fields the handler reads or writes.\<close>

record collaborator =
  c_userId :: userId
  c_username :: string
  c_permission :: string

record editor =
  e_userId :: userId
  e_username :: string
  e_timestamp :: nat

record document =
  title :: string
  content :: string
  ownerId :: userId
  collaborators :: "collaborator list"
  isPublic :: bool
  version :: int
  lastEditedBy :: "editor option"

text \<open>
  \<open>socket.user\<close> is the decoded token; \<open>socket.currentDocument\<close> is the field the
  handler sets on the socket; \<open>rooms\<close> are the rooms the socket is in. Socket.IO
  puts a socket in the room named by its own id when it connects; \<open>socket.join\<close> adds
  a room and \<open>socket.leave\<close> removes one, whichever room is named.
\<close>

record user =
  u_userId :: userId
  u_username :: string

record socket =
  sid :: socketId
  suser :: user
  rooms :: "documentId set"
  currentDocument :: "documentId option"

text \<open>The objects sent to clients and through the relay.\<close>

record presenceData =
  p_documentId :: documentId
  p_userId :: userId
  p_username :: string
  p_action :: string
  p_activeUsers :: "userId set"

record updateData =
  up_documentId :: documentId
  up_content :: string
  up_version :: int
  up_userId :: userId
  up_username :: string
  up_timestamp :: nat
  up_socketId :: socketId

record cursorData =
  cu_documentId :: documentId
  cu_userId :: userId
  cu_username :: string
  cu_position :: int
  cu_socketId :: socketId

datatype payload =
    ErrorP string
  | ContentP documentId string string int
  | UpdateP updateData
  | CursorP cursorData
  | PresenceP presenceData
  | TypingP userId string bool

text \<open>
  What a handler does to the outside, in the order it does it: \<open>Emit k ev p\<close> sends
  event \<open>ev\<close> with payload \<open>p\<close> to the client of socket \<open>k\<close>;
  \<open>Publish ch p\<close> publishes \<open>p\<close> on relay channel \<open>ch\<close>. Writing to the console
  is not recorded.
\<close>

datatype effect =
    Emit socketId string payload
  | Publish string payload

text \<open>
  The state one handler instance works on: its connected sockets, its \<open>activeUsers\<close>
  map, the document collection and the presence sets of Redis (the set stored under
  \<open>document:<id>:users\<close>; user ids are written with \<open>toString\<close> and read back with
  \<open>parseInt\<close>, so a set of user ids).
\<close>

record state =
  sockets :: "socket list"
  activeUsers :: "documentId \<rightharpoonup> userId set"
  docs :: "documentId \<rightharpoonup> document"
  presence :: "documentId \<Rightarrow> userId set"

text \<open>
  What the external services answer during one handler call: each awaited call of a
  handler may reject, which throws into the handler's \<open>catch\<close>; the two clock
  readings of an edit.
\<close>

record env =
  findById_throws :: bool
  save_throws :: bool
  sAdd_throws :: bool
  sRem_throws :: bool
  sMembers_throws :: bool
  publish_throws :: bool
  now_edit :: nat
  now_msg :: nat

section \<open>Socket.IO operations\<close>

definition socket_lookup :: "state \<Rightarrow> socketId \<Rightarrow> socket option" where
  "socket_lookup st k = find (\<lambda>s. sid s = k) (sockets st)"

fun update_first :: "socketId \<Rightarrow> (socket \<Rightarrow> socket) \<Rightarrow> socket list \<Rightarrow> socket list" where
  "update_first k f [] = []"
| "update_first k f (s # ss) = (if sid s = k then f s # ss else s # update_first k f ss)"

definition update_socket :: "socketId \<Rightarrow> (socket \<Rightarrow> socket) \<Rightarrow> state \<Rightarrow> state" where
  "update_socket k f st = st\<lparr>sockets := update_first k f (sockets st)\<rparr>"

text \<open>\<open>io.to(room)\<close>: every socket of this instance that is in the room.\<close>

definition io_to :: "socket list \<Rightarrow> documentId \<Rightarrow> socketId list" where
  "io_to ss room = map sid (filter (\<lambda>s. room \<in> rooms s) ss)"

text \<open>\<open>io.to(room).except(x)\<close>: every socket in the room that is not in room \<open>x\<close>.\<close>

definition io_to_except :: "socket list \<Rightarrow> documentId \<Rightarrow> string \<Rightarrow> socketId list" where
  "io_to_except ss room x = map sid (filter (\<lambda>s. room \<in> rooms s \<and> x \<notin> rooms s) ss)"

text \<open>
  \<open>socket.to(room)\<close>, on the socket of id \<open>k\<close>: Socket.IO broadcasts to the room
  except the room named \<open>k\<close>, which holds the sending socket unless it has left it.
\<close>

definition socket_to :: "socket list \<Rightarrow> socketId \<Rightarrow> documentId \<Rightarrow> socketId list" where
  "socket_to ss k room = io_to_except ss room k"

definition emit_to :: "socketId list \<Rightarrow> string \<Rightarrow> payload \<Rightarrow> effect list" where
  "emit_to ks ev p = map (\<lambda>k. Emit k ev p) ks"

section \<open>The relay subscriptions\<close>

text \<open>\<open>setupRedisSubscriptions\<close>: what an instance does with a relayed message.\<close>

definition on_document_updates :: "state \<Rightarrow> updateData \<Rightarrow> effect list" where
  "on_document_updates st data =
     emit_to (io_to_except (sockets st) (up_documentId data) (up_socketId data))
       ''document:update'' (UpdateP data)"

definition on_document_cursor :: "state \<Rightarrow> cursorData \<Rightarrow> effect list" where
  "on_document_cursor st data =
     emit_to (io_to_except (sockets st) (cu_documentId data) (cu_socketId data))
       ''cursor:move'' (CursorP data)"

definition on_document_presence :: "state \<Rightarrow> presenceData \<Rightarrow> effect list" where
  "on_document_presence st data =
     emit_to (io_to (sockets st) (p_documentId data)) ''user:presence'' (PresenceP data)"

section \<open>The event handlers\<close>

text \<open>
  A handler is called with the socket the event arrived on; the model names the socket
  by its id, and a handler for an id that is not connected does nothing. A handler runs
  from its first line to its last here; \<open>edit_prepare\<close> and \<open>edit_commit\<close> are the two
  parts of an edit around its \<open>await document.save()\<close>, for schedules in which the
  handlers of two connections overlap.
\<close>

definition hasAccess :: "document \<Rightarrow> userId \<Rightarrow> bool" where
  "hasAccess doc uid =
     (ownerId doc = uid \<or> list_ex (\<lambda>c. c_userId c = uid) (collaborators doc) \<or> isPublic doc)"

definition join_failed :: "socketId \<Rightarrow> effect" where
  "join_failed k = Emit k ''error'' (ErrorP ''Failed to join document'')"

definition handleDocumentJoin :: "env \<Rightarrow> socketId \<Rightarrow> documentId \<Rightarrow> state \<Rightarrow> state \<times> effect list" where
  "handleDocumentJoin e k d st =
     (case socket_lookup st k of
        None \<Rightarrow> (st, [])
      | Some sock \<Rightarrow>
          if findById_throws e then (st, [join_failed k])
          else (case docs st d of
            None \<Rightarrow> (st, [Emit k ''error'' (ErrorP ''Document not found'')])
          | Some doc \<Rightarrow>
              let uid = u_userId (suser sock) in
              if \<not> hasAccess doc uid then (st, [Emit k ''error'' (ErrorP ''Access denied'')])
              else
                let st1 = update_socket k
                            (\<lambda>s. s\<lparr>rooms := insert d (rooms s), currentDocument := Some d\<rparr>) st;
                    members = (case activeUsers st1 d of None \<Rightarrow> {} | Some S \<Rightarrow> S);
                    st2 = st1\<lparr>activeUsers := (activeUsers st1)(d \<mapsto> insert uid members)\<rparr>
                in
                if sAdd_throws e then (st2, [join_failed k])
                else
                  let st3 = st2\<lparr>presence := (presence st2)(d := insert uid (presence st2 d))\<rparr> in
                  if sMembers_throws e then (st3, [join_failed k])
                  else
                    let presenceData = \<lparr>p_documentId = d, p_userId = uid,
                          p_username = u_username (suser sock), p_action = ''joined'',
                          p_activeUsers = presence st3 d\<rparr>
                    in
                    if publish_throws e then (st3, [join_failed k])
                    else (st3,
                      Publish ''document:presence'' (PresenceP presenceData)
                      # emit_to (io_to (sockets st3) d) ''user:presence'' (PresenceP presenceData)
                      @ [Emit k ''document:content''
                           (ContentP d (content doc) (title doc) (version doc))])))"

definition handleDocumentLeave :: "env \<Rightarrow> socketId \<Rightarrow> documentId \<Rightarrow> state \<Rightarrow> state \<times> effect list" where
  "handleDocumentLeave e k d st =
     (case socket_lookup st k of
        None \<Rightarrow> (st, [])
      | Some sock \<Rightarrow>
          let uid = u_userId (suser sock);
              st1 = update_socket k (\<lambda>s. s\<lparr>rooms := rooms s - {d}, currentDocument := None\<rparr>) st;
              st2 = (case activeUsers st1 d of
                       None \<Rightarrow> st1
                     | Some S \<Rightarrow>
                         if S - {uid} = {} then st1\<lparr>activeUsers := (activeUsers st1)(d := None)\<rparr>
                         else st1\<lparr>activeUsers := (activeUsers st1)(d \<mapsto> S - {uid})\<rparr>)
          in
          if sRem_throws e then (st2, [])
          else
            let st3 = st2\<lparr>presence := (presence st2)(d := presence st2 d - {uid})\<rparr> in
            if sMembers_throws e then (st3, [])
            else
              let presenceData = \<lparr>p_documentId = d, p_userId = uid,
                    p_username = u_username (suser sock), p_action = ''left'',
                    p_activeUsers = presence st3 d\<rparr>
              in
              if publish_throws e then (st3, [])
              else (st3,
                Publish ''document:presence'' (PresenceP presenceData)
                # emit_to (io_to (sockets st3) d) ''user:presence'' (PresenceP presenceData)))"

definition hasWriteAccess :: "document \<Rightarrow> userId \<Rightarrow> bool" where
  "hasWriteAccess doc uid =
     (let isOwner = (ownerId doc = uid);
          collaborator = find (\<lambda>c. c_userId c = uid) (collaborators doc)
      in isOwner \<or>
         (case collaborator of
            None \<Rightarrow> False
          | Some c \<Rightarrow> c_permission c \<in> set [''write'', ''admin'']))"

definition edit_failed :: "socketId \<Rightarrow> effect" where
  "edit_failed k = Emit k ''error'' (ErrorP ''Failed to update document'')"

text \<open>
  \<open>document.version += 1\<close> adds two IEEE doubles. On an integer the sum is exact as
  long as its magnitude is at most \<open>2^53\<close>; up to \<open>2^54\<close> the doubles are the even
  integers, the sum lies half way between two of them and is rounded to the one with the
  even mantissa; beyond, the nearest double is the number itself.
\<close>

definition number_add1 :: "int \<Rightarrow> int" where
  "number_add1 v =
     (if \<bar>v + 1\<bar> \<le> 2 ^ 53 then v + 1
      else if \<bar>v + 1\<bar> < 2 ^ 54 then (if even (\<bar>v\<bar> div 2) then v else v + 2)
      else v)"

text \<open>
  From \<open>Document.findById\<close> to the assignment of \<open>lastEditedBy\<close>: either the handler
  returns with the effects on the left, or it holds the changed document object.
\<close>

definition edit_prepare :: "env \<Rightarrow> socket \<Rightarrow> documentId \<Rightarrow> string \<Rightarrow> state \<Rightarrow> effect list + document" where
  "edit_prepare e sock d newContent st =
     (if findById_throws e then Inl [edit_failed (sid sock)]
      else (case docs st d of
        None \<Rightarrow> Inl [Emit (sid sock) ''error'' (ErrorP ''Document not found'')]
      | Some doc \<Rightarrow>
          let uid = u_userId (suser sock) in
          if \<not> hasWriteAccess doc uid
          then Inl [Emit (sid sock) ''error'' (ErrorP ''No write permission'')]
          else Inr (doc\<lparr>content := newContent, version := number_add1 (version doc),
                 lastEditedBy := Some \<lparr>e_userId = uid, e_username = u_username (suser sock),
                   e_timestamp = now_edit e\<rparr>\<rparr>)))"

text \<open>From \<open>document.save()\<close> to the end of the handler.\<close>

definition edit_commit :: "env \<Rightarrow> socket \<Rightarrow> documentId \<Rightarrow> string \<Rightarrow> document \<Rightarrow> state \<Rightarrow> state \<times> effect list" where
  "edit_commit e sock d newContent doc st =
     (if save_throws e then (st, [edit_failed (sid sock)])
      else
        let st1 = st\<lparr>docs := (docs st)(d \<mapsto> doc)\<rparr>;
            updateData = \<lparr>up_documentId = d, up_content = newContent, up_version = version doc,
              up_userId = u_userId (suser sock), up_username = u_username (suser sock),
              up_timestamp = now_msg e, up_socketId = sid sock\<rparr>
        in
        if publish_throws e then (st1, [edit_failed (sid sock)])
        else (st1,
          Publish ''document:updates'' (UpdateP updateData)
          # emit_to (socket_to (sockets st1) (sid sock) d) ''document:update'' (UpdateP updateData)))"

definition handleDocumentEdit :: "env \<Rightarrow> socketId \<Rightarrow> documentId \<Rightarrow> string \<Rightarrow> state \<Rightarrow> state \<times> effect list" where
  "handleDocumentEdit e k d newContent st =
     (case socket_lookup st k of
        None \<Rightarrow> (st, [])
      | Some sock \<Rightarrow>
          (case edit_prepare e sock d newContent st of
             Inl effs \<Rightarrow> (st, effs)
           | Inr doc \<Rightarrow> edit_commit e sock d newContent doc st))"

definition handleCursorPosition :: "env \<Rightarrow> socketId \<Rightarrow> documentId \<Rightarrow> int \<Rightarrow> state \<Rightarrow> state \<times> effect list" where
  "handleCursorPosition e k d position st =
     (case socket_lookup st k of
        None \<Rightarrow> (st, [])
      | Some sock \<Rightarrow>
          let cursorData = \<lparr>cu_documentId = d, cu_userId = u_userId (suser sock),
                cu_username = u_username (suser sock), cu_position = position,
                cu_socketId = sid sock\<rparr>
          in
          if publish_throws e then (st, [])
          else (st,
            Publish ''document:cursor'' (CursorP cursorData)
            # emit_to (socket_to (sockets st) (sid sock) d) ''cursor:move'' (CursorP cursorData)))"

definition handleTypingIndicator :: "socketId \<Rightarrow> documentId \<Rightarrow> bool \<Rightarrow> state \<Rightarrow> state \<times> effect list" where
  "handleTypingIndicator k d isTyping st =
     (case socket_lookup st k of
        None \<Rightarrow> (st, [])
      | Some sock \<Rightarrow>
          (st, emit_to (socket_to (sockets st) (sid sock) d) ''user:typing''
                 (TypingP (u_userId (suser sock)) (u_username (suser sock)) isTyping)))"

text \<open>
  \<open>if (socket.currentDocument)\<close> is JavaScript truthiness: neither \<open>null\<close> nor the
  empty string.
\<close>

definition handleDisconnection :: "env \<Rightarrow> socketId \<Rightarrow> state \<Rightarrow> state \<times> effect list" where
  "handleDisconnection e k st =
     (case socket_lookup st k of
        None \<Rightarrow> (st, [])
      | Some sock \<Rightarrow>
          (case currentDocument sock of
             None \<Rightarrow> (st, [])
           | Some d \<Rightarrow> if d = [] then (st, []) else handleDocumentLeave e k d st))"

section \<open>Runs of one instance\<close>

text \<open>
  The events an instance processes: a connection that passed the authentication
  middleware, the five client events, the disconnect (after which the socket is gone),
  and the delivery of a relayed message.
\<close>

datatype event =
    Connect socketId user
  | Disconnect env socketId
  | Join env socketId documentId
  | Leave env socketId documentId
  | Edit env socketId documentId string
  | Cursor env socketId documentId int
  | Typing socketId documentId bool
  | RelayUpdate updateData
  | RelayCursor cursorData
  | RelayPresence presenceData

definition connect :: "socketId \<Rightarrow> user \<Rightarrow> state \<Rightarrow> state" where
  "connect k u st =
     st\<lparr>sockets := sockets st @ [\<lparr>sid = k, suser = u, rooms = {k}, currentDocument = None\<rparr>]\<rparr>"

definition remove_socket :: "socketId \<Rightarrow> state \<Rightarrow> state" where
  "remove_socket k st = st\<lparr>sockets := filter (\<lambda>s. sid s \<noteq> k) (sockets st)\<rparr>"

fun step :: "event \<Rightarrow> state \<Rightarrow> state \<times> effect list" where
  "step (Connect k u) st = (connect k u st, [])"
| "step (Disconnect e k) st =
     (let r = handleDisconnection e k st in (remove_socket k (fst r), snd r))"
| "step (Join e k d) st = handleDocumentJoin e k d st"
| "step (Leave e k d) st = handleDocumentLeave e k d st"
| "step (Edit e k d c) st = handleDocumentEdit e k d c st"
| "step (Cursor e k d p) st = handleCursorPosition e k d p st"
| "step (Typing k d t) st = handleTypingIndicator k d t st"
| "step (RelayUpdate m) st = (st, on_document_updates st m)"
| "step (RelayCursor m) st = (st, on_document_cursor st m)"
| "step (RelayPresence m) st = (st, on_document_presence st m)"

fun run :: "event list \<Rightarrow> state \<Rightarrow> state" where
  "run [] st = st"
| "run (ev # evs) st = run evs (fst (step ev st))"

section \<open>A small instance for concrete runs\<close>

text \<open>
  Four users and two documents. \<open>d1\<close> is private to its owner alice, with bob as a
  collaborator who may read and carol as one who may write; dave has no grant on it.
  \<open>d2\<close> is public. In \<open>lobby\<close> everybody is connected and nobody has joined; in
  \<open>session\<close> alice and bob have joined \<open>d1\<close>; in \<open>bob_alone\<close> only bob has.
\<close>

definition alice :: user where
  "alice = \<lparr>u_userId = 1, u_username = ''alice''\<rparr>"

definition bob :: user where
  "bob = \<lparr>u_userId = 2, u_username = ''bob''\<rparr>"

definition carol :: user where
  "carol = \<lparr>u_userId = 3, u_username = ''carol''\<rparr>"

definition dave :: user where
  "dave = \<lparr>u_userId = 4, u_username = ''dave''\<rparr>"

definition doc_notes :: document where
  "doc_notes = \<lparr>title = ''Notes'', content = [], ownerId = 1,
     collaborators = [\<lparr>c_userId = 2, c_username = ''bob'', c_permission = ''read''\<rparr>,
                      \<lparr>c_userId = 3, c_username = ''carol'', c_permission = ''write''\<rparr>],
     isPublic = False, version = 1, lastEditedBy = None\<rparr>"

definition doc_plan :: document where
  "doc_plan = \<lparr>title = ''Plan'', content = [], ownerId = 1,
     collaborators = [], isPublic = True, version = 1, lastEditedBy = None\<rparr>"

definition fresh :: "socketId \<Rightarrow> user \<Rightarrow> socket" where
  "fresh k u = \<lparr>sid = k, suser = u, rooms = {k}, currentDocument = None\<rparr>"

definition seated :: "socketId \<Rightarrow> user \<Rightarrow> documentId \<Rightarrow> socket" where
  "seated k u d = \<lparr>sid = k, suser = u, rooms = {k, d}, currentDocument = Some d\<rparr>"

definition lobby :: state where
  "lobby = \<lparr>sockets = [fresh ''sA'' alice, fresh ''sB'' bob, fresh ''sC'' carol, fresh ''sD'' dave],
     activeUsers = Map.empty,
     docs = [''d1'' \<mapsto> doc_notes, ''d2'' \<mapsto> doc_plan],
     presence = (\<lambda>_. {})\<rparr>"

definition session :: state where
  "session = \<lparr>sockets = [seated ''sA'' alice ''d1'', seated ''sB'' bob ''d1'',
                 fresh ''sC'' carol, fresh ''sD'' dave],
     activeUsers = [''d1'' \<mapsto> {1, 2}],
     docs = [''d1'' \<mapsto> doc_notes, ''d2'' \<mapsto> doc_plan],
     presence = (\<lambda>_. {})(''d1'' := {1, 2})\<rparr>"

definition bob_alone :: state where
  "bob_alone = \<lparr>sockets = [fresh ''sA'' alice, seated ''sB'' bob ''d1'',
                 fresh ''sC'' carol, fresh ''sD'' dave],
     activeUsers = [''d1'' \<mapsto> {2}],
     docs = [''d1'' \<mapsto> doc_notes, ''d2'' \<mapsto> doc_plan],
     presence = (\<lambda>_. {})(''d1'' := {2})\<rparr>"

definition hello_update :: updateData where
  "hello_update = \<lparr>up_documentId = ''d1'', up_content = ''hello'',
          up_version = 2, up_userId = 1, up_username = ''alice'', up_timestamp = 0,
          up_socketId = ''sA''\<rparr>"

definition calm :: env where
  "calm = \<lparr>findById_throws = False, save_throws = False, sAdd_throws = False,
     sRem_throws = False, sMembers_throws = False, publish_throws = False,
     now_edit = 0, now_msg = 0\<rparr>"





section \<open>Properties\<close>

lemma socket_lookup_sid: "socket_lookup st k = Some sock \<Longrightarrow> sid sock = k"
  unfolding socket_lookup_def by (auto simp: find_Some_iff)

subsection \<open>The concrete states are states of runs\<close>

lemma lobby_reached:
  "run [Connect ''sA'' alice, Connect ''sB'' bob, Connect ''sC'' carol, Connect ''sD'' dave]
     \<lparr>sockets = [], activeUsers = Map.empty,
      docs = [''d1'' \<mapsto> doc_notes, ''d2'' \<mapsto> doc_plan], presence = (\<lambda>_. {})\<rparr>
   = lobby"
  by (simp add: connect_def lobby_def fresh_def)

lemma session_reached:
  "run [Join calm ''sA'' ''d1'', Join calm ''sB'' ''d1''] lobby = session"
  by (simp add: handleDocumentJoin_def socket_lookup_def hasAccess_def update_socket_def Let_def
        lobby_def session_def doc_notes_def fresh_def seated_def alice_def bob_def calm_def
        insert_commute)

lemma bob_alone_reached:
  "run [Join calm ''sB'' ''d1''] lobby = bob_alone"
  by (simp add: handleDocumentJoin_def socket_lookup_def hasAccess_def update_socket_def Let_def
        lobby_def bob_alone_def doc_notes_def fresh_def seated_def alice_def bob_def calm_def
        insert_commute)

subsection \<open>Join: rejected requests\<close>

text \<open>
  Claim C5. When the document store answers a join and the document does not exist, the
  sender gets the error \<open>Document not found\<close>; when the document exists and the
  identity is neither its owner nor one of its collaborators and the document is not
  public, the sender gets \<open>Access denied\<close>. In both cases that message is all the
  handler does: the whole state (sockets with their rooms and current document, the
  \<open>activeUsers\<close> map, the presence sets, the documents) is the one before the call.
\<close>

theorem join_rejected_state_unchanged:
  assumes "socket_lookup st k = Some sock" and "\<not> findById_throws e"
  shows "(docs st d = None \<longrightarrow>
            handleDocumentJoin e k d st = (st, [Emit k ''error'' (ErrorP ''Document not found'')]))
       \<and> (\<forall>doc. docs st d = Some doc \<and> ownerId doc \<noteq> u_userId (suser sock)
              \<and> (\<forall>c \<in> set (collaborators doc). c_userId c \<noteq> u_userId (suser sock))
              \<and> \<not> isPublic doc \<longrightarrow>
            handleDocumentJoin e k d st = (st, [Emit k ''error'' (ErrorP ''Access denied'')]))"
  using assms
  by (auto simp: handleDocumentJoin_def hasAccess_def list_ex_iff)

lemma lobby_lookup_sD: "socket_lookup lobby ''sD'' = Some (fresh ''sD'' dave)"
  by (simp add: socket_lookup_def lobby_def fresh_def)

theorem join_rejected_state_unchanged_witness:
  "socket_lookup lobby ''sD'' = Some (fresh ''sD'' dave) \<and> \<not> findById_throws calm
   \<and> docs lobby ''d9'' = None \<and> docs lobby ''d1'' = Some doc_notes
   \<and> ownerId doc_notes \<noteq> u_userId (suser (fresh ''sD'' dave))
   \<and> \<not> list_ex (\<lambda>c. c_userId c = u_userId (suser (fresh ''sD'' dave))) (collaborators doc_notes)
   \<and> \<not> isPublic doc_notes
   \<and> handleDocumentJoin calm ''sD'' ''d9'' lobby = (lobby, [Emit ''sD'' ''error'' (ErrorP ''Document not found'')])
   \<and> handleDocumentJoin calm ''sD'' ''d1'' lobby = (lobby, [Emit ''sD'' ''error'' (ErrorP ''Access denied'')])"
proof -
  have a: "socket_lookup lobby ''sD'' = Some (fresh ''sD'' dave)" by (rule lobby_lookup_sD)
  have b: "\<not> findById_throws calm" by (simp add: calm_def)
  have c: "docs lobby ''d9'' = None" by (simp add: lobby_def)
  have d: "docs lobby ''d1'' = Some doc_notes" by (simp add: lobby_def)
  have f: "ownerId doc_notes \<noteq> u_userId (suser (fresh ''sD'' dave))"
    by (simp add: doc_notes_def fresh_def dave_def)
  have g: "\<forall>c \<in> set (collaborators doc_notes). c_userId c \<noteq> u_userId (suser (fresh ''sD'' dave))"
    by (simp add: doc_notes_def fresh_def dave_def)
  have h: "\<not> isPublic doc_notes" by (simp add: doc_notes_def)
  from join_rejected_state_unchanged [OF a b, of "''d9''"] c
  have r1: "handleDocumentJoin calm ''sD'' ''d9'' lobby = (lobby, [Emit ''sD'' ''error'' (ErrorP ''Document not found'')])"
    by blast
  from join_rejected_state_unchanged [OF a b, of "''d1''"] d f g h
  have r2: "handleDocumentJoin calm ''sD'' ''d1'' lobby = (lobby, [Emit ''sD'' ''error'' (ErrorP ''Access denied'')])"
    by blast
  have g': "\<not> list_ex (\<lambda>c. c_userId c = u_userId (suser (fresh ''sD'' dave))) (collaborators doc_notes)"
    by (simp add: doc_notes_def fresh_def dave_def)
  from a b c d f g' h r1 r2 show ?thesis by blast
qed

subsection \<open>Facts about sockets and write access\<close>

lemma find_update_first:
  "(\<And>s. sid (f s) = sid s) \<Longrightarrow>
   find (\<lambda>s. sid s = k) (update_first k f ss) = map_option f (find (\<lambda>s. sid s = k) ss)"
  by (induction ss) auto

lemma socket_lookup_update:
  "(\<And>s. sid (f s) = sid s) \<Longrightarrow>
   socket_lookup (update_socket k f st) k = map_option f (socket_lookup st k)"
  by (simp add: socket_lookup_def update_socket_def find_update_first)

lemma emit_to_mem: "Emit k ev p \<in> set (emit_to ks ev' p') \<longleftrightarrow> k \<in> set ks \<and> ev = ev' \<and> p = p'"
  by (auto simp: emit_to_def)

lemma publish_not_in_emit_to: "Publish ch p \<notin> set (emit_to ks ev p')"
  by (auto simp: emit_to_def)

lemma hasWriteAccess_grant:
  assumes "hasWriteAccess doc uid"
  shows "ownerId doc = uid
       \<or> (\<exists>x \<in> set (collaborators doc). c_userId x = uid
             \<and> (c_permission x = ''write'' \<or> c_permission x = ''admin''))"
proof (cases "ownerId doc = uid")
  case True
  then show ?thesis by simp
next
  case False
  with assms obtain x where x: "find (\<lambda>c. c_userId c = uid) (collaborators doc) = Some x"
    and p: "c_permission x = ''write'' \<or> c_permission x = ''admin''"
    by (auto simp: hasWriteAccess_def split: option.splits)
  from x have "x \<in> set (collaborators doc)" and "c_userId x = uid"
    by (auto simp: find_Some_iff)
  with p show ?thesis by blast
qed

lemma edit_docs_changed:
  assumes "docs (fst (handleDocumentEdit e k d c st)) \<noteq> docs st"
  shows "\<exists>sock doc. socket_lookup st k = Some sock \<and> docs st d = Some doc
           \<and> hasWriteAccess doc (u_userId (suser sock))
           \<and> docs (fst (handleDocumentEdit e k d c st)) =
               (docs st)(d \<mapsto> doc\<lparr>content := c, version := number_add1 (version doc),
                  lastEditedBy := Some \<lparr>e_userId = u_userId (suser sock),
                    e_username = u_username (suser sock), e_timestamp = now_edit e\<rparr>\<rparr>)"
  using assms
  by (auto simp: handleDocumentEdit_def edit_prepare_def edit_commit_def Let_def
           split: option.splits if_splits sum.splits)

subsection \<open>Edit: write permission\<close>

text \<open>
  Claim C4. An edit of an existing document changes the document collection only when the
  identity of the connection is the document's owner or is listed among its
  collaborators with permission \<open>write\<close> or \<open>admin\<close>. For every other identity (a
  collaborator with \<open>read\<close> included), once the document has been fetched, the sender
  gets the error \<open>No write permission\<close> and nothing else happens: the state, and with
  it the content, version and last editor of the document, is the one before the call.
\<close>

theorem edit_requires_write_permission:
  assumes "socket_lookup st k = Some sock" and "docs st d = Some doc"
  shows "(docs (fst (handleDocumentEdit e k d c st)) \<noteq> docs st \<longrightarrow>
            ownerId doc = u_userId (suser sock)
            \<or> (\<exists>x \<in> set (collaborators doc). c_userId x = u_userId (suser sock)
                  \<and> (c_permission x = ''write'' \<or> c_permission x = ''admin'')))
       \<and> (\<not> findById_throws e \<and> ownerId doc \<noteq> u_userId (suser sock)
            \<and> (\<forall>x \<in> set (collaborators doc). c_userId x = u_userId (suser sock) \<longrightarrow>
                  c_permission x \<noteq> ''write'' \<and> c_permission x \<noteq> ''admin'') \<longrightarrow>
            handleDocumentEdit e k d c st = (st, [Emit k ''error'' (ErrorP ''No write permission'')]))"
proof (intro conjI impI)
  assume "docs (fst (handleDocumentEdit e k d c st)) \<noteq> docs st"
  from edit_docs_changed [OF this] assms
  have "hasWriteAccess doc (u_userId (suser sock))" by auto
  then show "ownerId doc = u_userId (suser sock)
            \<or> (\<exists>x \<in> set (collaborators doc). c_userId x = u_userId (suser sock)
                  \<and> (c_permission x = ''write'' \<or> c_permission x = ''admin''))"
    by (rule hasWriteAccess_grant)
next
  assume h: "\<not> findById_throws e \<and> ownerId doc \<noteq> u_userId (suser sock)
            \<and> (\<forall>x \<in> set (collaborators doc). c_userId x = u_userId (suser sock) \<longrightarrow>
                  c_permission x \<noteq> ''write'' \<and> c_permission x \<noteq> ''admin'')"
  then have "\<not> hasWriteAccess doc (u_userId (suser sock))"
    using hasWriteAccess_grant [of doc "u_userId (suser sock)"] by blast
  with h assms socket_lookup_sid [OF assms(1)]
  show "handleDocumentEdit e k d c st = (st, [Emit k ''error'' (ErrorP ''No write permission'')])"
    by (simp add: handleDocumentEdit_def edit_prepare_def)
qed

lemma session_lookup_sB: "socket_lookup session ''sB'' = Some (seated ''sB'' bob ''d1'')"
  by (simp add: socket_lookup_def session_def seated_def fresh_def)

theorem edit_requires_write_permission_witness:
  "socket_lookup session ''sB'' = Some (seated ''sB'' bob ''d1'')
   \<and> docs session ''d1'' = Some doc_notes
   \<and> \<not> findById_throws calm
   \<and> ownerId doc_notes \<noteq> u_userId (suser (seated ''sB'' bob ''d1''))
   \<and> list_all (\<lambda>x. c_userId x = u_userId (suser (seated ''sB'' bob ''d1'')) \<longrightarrow>
                  c_permission x \<noteq> ''write'' \<and> c_permission x \<noteq> ''admin'') (collaborators doc_notes)
   \<and> docs (fst (handleDocumentEdit calm ''sB'' ''d1'' ''hello'' session)) = docs session
   \<and> handleDocumentEdit calm ''sB'' ''d1'' ''hello'' session
       = (session, [Emit ''sB'' ''error'' (ErrorP ''No write permission'')])"
proof -
  have a: "socket_lookup session ''sB'' = Some (seated ''sB'' bob ''d1'')"
    by (rule session_lookup_sB)
  have b: "docs session ''d1'' = Some doc_notes" by (simp add: session_def)
  have c: "\<not> findById_throws calm" by (simp add: calm_def)
  have d: "ownerId doc_notes \<noteq> u_userId (suser (seated ''sB'' bob ''d1''))"
    by (simp add: doc_notes_def seated_def bob_def)
  have f: "list_all (\<lambda>x. c_userId x = u_userId (suser (seated ''sB'' bob ''d1'')) \<longrightarrow>
                  c_permission x \<noteq> ''write'' \<and> c_permission x \<noteq> ''admin'') (collaborators doc_notes)"
    by (simp add: doc_notes_def seated_def bob_def)
  then have f': "\<forall>x \<in> set (collaborators doc_notes). c_userId x = u_userId (suser (seated ''sB'' bob ''d1'')) \<longrightarrow>
                  c_permission x \<noteq> ''write'' \<and> c_permission x \<noteq> ''admin''"
    by (simp add: list_all_iff)
  from edit_requires_write_permission [OF a b, of calm "''hello''"] c d f'
  have r: "handleDocumentEdit calm ''sB'' ''d1'' ''hello'' session
       = (session, [Emit ''sB'' ''error'' (ErrorP ''No write permission'')])"
    by blast
  then have r': "docs (fst (handleDocumentEdit calm ''sB'' ''d1'' ''hello'' session)) = docs session"
    by simp
  from a b c d f r r' show ?thesis by blast
qed

subsection \<open>Edit: no check of the join state\<close>

lemma bob_alone_lookup_sA: "socket_lookup bob_alone ''sA'' = Some (fresh ''sA'' alice)"
  by (simp add: socket_lookup_def bob_alone_def seated_def fresh_def)

lemma bob_alone_edit:
  "handleDocumentEdit calm ''sA'' ''d1'' ''hello'' bob_alone =
     (bob_alone\<lparr>docs := (docs bob_alone)(''d1'' \<mapsto> doc_notes\<lparr>content := ''hello'', version := 2,
          lastEditedBy := Some \<lparr>e_userId = 1, e_username = ''alice'', e_timestamp = 0\<rparr>\<rparr>)\<rparr>,
      [Publish ''document:updates'' (UpdateP hello_update),
       Emit ''sB'' ''document:update'' (UpdateP hello_update)])"
  by (simp add: handleDocumentEdit_def socket_lookup_def edit_prepare_def edit_commit_def
        hasWriteAccess_def number_add1_def socket_to_def io_to_except_def emit_to_def Let_def
        hello_update_def bob_alone_def fresh_def seated_def alice_def bob_def carol_def dave_def
        calm_def doc_notes_def)

text \<open>
  Claim C1, as stated, fails: alice is connected and has joined nothing, yet her edit of
  \<open>d1\<close> is saved (version 2), published on the relay and sent to bob; no error is
  reported to her.
\<close>

theorem edit_without_join_counterexample:
  "socket_lookup bob_alone ''sA'' = Some (fresh ''sA'' alice)
   \<and> ''d1'' \<notin> rooms (fresh ''sA'' alice)
   \<and> currentDocument (fresh ''sA'' alice) = None
   \<and> docs (fst (handleDocumentEdit calm ''sA'' ''d1'' ''hello'' bob_alone)) ''d1'' =
       Some (doc_notes\<lparr>content := ''hello'', version := 2,
          lastEditedBy := Some \<lparr>e_userId = 1, e_username = ''alice'', e_timestamp = 0\<rparr>\<rparr>)
   \<and> snd (handleDocumentEdit calm ''sA'' ''d1'' ''hello'' bob_alone) =
      [Publish ''document:updates'' (UpdateP \<lparr>up_documentId = ''d1'', up_content = ''hello'',
          up_version = 2, up_userId = 1, up_username = ''alice'', up_timestamp = 0,
          up_socketId = ''sA''\<rparr>),
       Emit ''sB'' ''document:update'' (UpdateP \<lparr>up_documentId = ''d1'', up_content = ''hello'',
          up_version = 2, up_userId = 1, up_username = ''alice'', up_timestamp = 0,
          up_socketId = ''sA''\<rparr>)]"
  by (simp add: bob_alone_edit bob_alone_lookup_sA) (simp add: fresh_def hello_update_def)

lemma others_after_update_first:
  "(\<And>s. sid (f s) = sid s) \<Longrightarrow> k' \<noteq> k \<Longrightarrow>
   {s \<in> set (update_first k f ss). sid s = k'} = {s \<in> set ss. sid s = k'}"
  by (induction ss) auto

lemma socket_to_mem:
  "k' \<in> set (socket_to ss k d) \<longleftrightarrow> (\<exists>s \<in> {s \<in> set ss. sid s = k'}. d \<in> rooms s \<and> k \<notin> rooms s)"
  by (auto simp: socket_to_def io_to_except_def)

lemma socket_to_others:
  assumes "\<And>s. sid (f s) = sid s" and "k' \<noteq> k"
  shows "k' \<in> set (socket_to (update_first k f ss) k d) \<longleftrightarrow> k' \<in> set (socket_to ss k d)"
  unfolding socket_to_mem others_after_update_first [of f k' k ss, OF assms] ..

text \<open>
  Claim C1, amended. The handler of an edit makes no check of the join state. Whatever
  the rooms and the current document of the sending socket are set to, the same
  documents are stored and the same effects follow, a \<open>document:update\<close> sent to the
  sending socket itself left aside: the errors sent to the sender, the publication on
  the relay, and the \<open>document:update\<close> sent to every other socket.
\<close>

theorem edit_ignores_membership:
  "docs (fst (handleDocumentEdit e k d c
          (update_socket k (\<lambda>s. s\<lparr>rooms := R, currentDocument := cur\<rparr>) st)))
     = docs (fst (handleDocumentEdit e k d c st))
   \<and> (\<forall>x. (\<forall>p. x \<noteq> Emit k ''document:update'' p) \<longrightarrow>
          (x \<in> set (snd (handleDocumentEdit e k d c
                  (update_socket k (\<lambda>s. s\<lparr>rooms := R, currentDocument := cur\<rparr>) st)))
           \<longleftrightarrow> x \<in> set (snd (handleDocumentEdit e k d c st))))"
proof -
  let ?f = "\<lambda>s. s\<lparr>rooms := R, currentDocument := cur\<rparr>"
  let ?st = "update_socket k ?f st"
  have look: "socket_lookup ?st k = map_option ?f (socket_lookup st k)"
    by (rule socket_lookup_update) simp
  have same_docs: "docs ?st = docs st" by (simp add: update_socket_def)
  have to: "k' \<in> set (socket_to (sockets ?st) k d) \<longleftrightarrow> k' \<in> set (socket_to (sockets st) k d)"
    if "k' \<noteq> k" for k'
    using that by (simp add: update_socket_def socket_to_others)
  show ?thesis
  proof (cases "socket_lookup st k")
    case None
    with look same_docs show ?thesis by (simp add: handleDocumentEdit_def)
  next
    case (Some sock)
    then have k: "sid sock = k" by (rule socket_lookup_sid)
    have prep: "edit_prepare e (?f sock) d c ?st = edit_prepare e sock d c st"
      by (simp add: edit_prepare_def same_docs Let_def split: option.splits)
    have com1: "docs (fst (edit_commit e (?f sock) d c doc ?st))
                = docs (fst (edit_commit e sock d c doc st))" for doc
      by (simp add: edit_commit_def Let_def same_docs)
    have com2: "x \<in> set (snd (edit_commit e (?f sock) d c doc ?st))
                \<longleftrightarrow> x \<in> set (snd (edit_commit e sock d c doc st))"
      if "\<forall>p. x \<noteq> Emit k ''document:update'' p" for doc x
    proof (cases x)
      case (Emit k' ev p)
      show ?thesis
      proof (cases "k' = k")
        case True
        with Emit that have "ev \<noteq> ''document:update''" by auto
        with Emit k show ?thesis
          by (auto simp: edit_commit_def Let_def edit_failed_def emit_to_mem)
      next
        case False
        with Emit k to [OF False] show ?thesis
          by (auto simp: edit_commit_def Let_def edit_failed_def emit_to_mem)
      qed
    next
      case (Publish ch p)
      with k show ?thesis
        by (auto simp: edit_commit_def Let_def edit_failed_def publish_not_in_emit_to)
    qed
    from Some look prep com1 com2 show ?thesis
      by (simp add: handleDocumentEdit_def same_docs split: sum.splits)
  qed
qed

theorem edit_ignores_membership_witness:
  "Emit ''sB'' ''document:update'' (UpdateP hello_update)
     \<in> set (snd (handleDocumentEdit calm ''sA'' ''d1'' ''hello''
          (update_socket ''sA'' (\<lambda>s. s\<lparr>rooms := {''sA'', ''d1''}, currentDocument := Some ''d1''\<rparr>)
             bob_alone)))
   \<and> map_option version
        (docs (fst (handleDocumentEdit calm ''sA'' ''d1'' ''hello''
          (update_socket ''sA'' (\<lambda>s. s\<lparr>rooms := {''sA'', ''d1''}, currentDocument := Some ''d1''\<rparr>)
             bob_alone))) ''d1'') = Some 2"
  using edit_ignores_membership [where e = calm and k = "''sA''" and d = "''d1''"
      and c = "''hello''" and R = "{''sA'', ''d1''}" and cur = "Some ''d1''" and st = bob_alone]
  by (simp add: bob_alone_edit)

subsection \<open>Edit: a failing relay\<close>

lemma session_lookup_sA: "socket_lookup session ''sA'' = Some (seated ''sA'' alice ''d1'')"
  by (simp add: socket_lookup_def session_def seated_def fresh_def)

text \<open>
  Claim C7, amended. When the document has been saved and the publication on the relay
  fails, the handler is in its \<open>catch\<close>: the sender gets the error
  \<open>Failed to update document\<close>, nothing is sent to the other connections in the room,
  and the saved edit stays in the store.
\<close>

theorem edit_publish_failure:
  assumes "socket_lookup st k = Some sock" and "\<not> findById_throws e"
    and "docs st d = Some doc" and "hasWriteAccess doc (u_userId (suser sock))"
    and "\<not> save_throws e" and "publish_throws e"
  shows "handleDocumentEdit e k d c st =
     (st\<lparr>docs := (docs st)(d \<mapsto> doc\<lparr>content := c, version := number_add1 (version doc),
          lastEditedBy := Some \<lparr>e_userId = u_userId (suser sock),
             e_username = u_username (suser sock), e_timestamp = now_edit e\<rparr>\<rparr>)\<rparr>,
      [Emit k ''error'' (ErrorP ''Failed to update document'')])"
  using assms socket_lookup_sid [OF assms(1)]
  by (simp add: handleDocumentEdit_def edit_prepare_def edit_commit_def edit_failed_def Let_def)

theorem edit_publish_failure_witness:
  "socket_lookup session ''sA'' = Some (seated ''sA'' alice ''d1'')
   \<and> \<not> findById_throws (calm\<lparr>publish_throws := True\<rparr>)
   \<and> docs session ''d1'' = Some doc_notes
   \<and> hasWriteAccess doc_notes (u_userId (suser (seated ''sA'' alice ''d1'')))
   \<and> \<not> save_throws (calm\<lparr>publish_throws := True\<rparr>)
   \<and> publish_throws (calm\<lparr>publish_throws := True\<rparr>)
   \<and> snd (handleDocumentEdit (calm\<lparr>publish_throws := True\<rparr>) ''sA'' ''d1'' ''hello'' session)
       = [Emit ''sA'' ''error'' (ErrorP ''Failed to update document'')]"
proof -
  have a: "socket_lookup session ''sA'' = Some (seated ''sA'' alice ''d1'')"
    by (rule session_lookup_sA)
  have b: "\<not> findById_throws (calm\<lparr>publish_throws := True\<rparr>)" by (simp add: calm_def)
  have c: "docs session ''d1'' = Some doc_notes" by (simp add: session_def)
  have d: "hasWriteAccess doc_notes (u_userId (suser (seated ''sA'' alice ''d1'')))"
    by (simp add: hasWriteAccess_def doc_notes_def seated_def alice_def)
  have f: "\<not> save_throws (calm\<lparr>publish_throws := True\<rparr>)" by (simp add: calm_def)
  have g: "publish_throws (calm\<lparr>publish_throws := True\<rparr>)" by simp
  from edit_publish_failure [OF a b c d f g, of "''hello''"]
  have "snd (handleDocumentEdit (calm\<lparr>publish_throws := True\<rparr>) ''sA'' ''d1'' ''hello'' session)
       = [Emit ''sA'' ''error'' (ErrorP ''Failed to update document'')]"
    by simp
  with a b c d f g show ?thesis by blast
qed

text \<open>
  Claim C7, as stated, fails: alice and bob are in the room of \<open>d1\<close>, alice's edit is
  saved (version 2), the publication fails; alice is sent an error and bob, the other
  connection in the room, is sent nothing.
\<close>

theorem edit_publish_failure_counterexample:
  "socket_to (sockets session) ''sA'' ''d1'' = [''sB'']
   \<and> map_option version
        (docs (fst (handleDocumentEdit (calm\<lparr>publish_throws := True\<rparr>) ''sA'' ''d1'' ''hello'' session)) ''d1'')
       = Some 2
   \<and> snd (handleDocumentEdit (calm\<lparr>publish_throws := True\<rparr>) ''sA'' ''d1'' ''hello'' session)
       = [Emit ''sA'' ''error'' (ErrorP ''Failed to update document'')]"
  by (simp add: handleDocumentEdit_def socket_lookup_def edit_prepare_def edit_commit_def
        edit_failed_def hasWriteAccess_def number_add1_def socket_to_def io_to_except_def Let_def
        session_def fresh_def seated_def alice_def bob_def carol_def dave_def calm_def doc_notes_def)

subsection \<open>Edit: the echo to the editor\<close>

lemma session_edit_effects:
  "snd (handleDocumentEdit calm ''sA'' ''d1'' ''hello'' session) =
      [Publish ''document:updates'' (UpdateP hello_update),
       Emit ''sB'' ''document:update'' (UpdateP hello_update)]"
  by (simp add: handleDocumentEdit_def socket_lookup_def edit_prepare_def edit_commit_def
        hasWriteAccess_def number_add1_def socket_to_def io_to_except_def emit_to_def Let_def
        hello_update_def session_def fresh_def seated_def alice_def bob_def carol_def dave_def
        calm_def doc_notes_def)

lemma session_relay_effects:
  "on_document_updates session hello_update = [Emit ''sB'' ''document:update'' (UpdateP hello_update)]"
  by (simp add: on_document_updates_def io_to_except_def emit_to_def hello_update_def
        session_def fresh_def seated_def)

text \<open>
  As long as every socket of id \<open>k\<close> is in the room named \<open>k\<close>, an edit on \<open>k\<close> sends
  no \<open>document:update\<close> to \<open>k\<close>, and a relayed update that carries \<open>k\<close> as its
  socket id is sent to no socket of that id.
\<close>

lemma no_echo_while_in_own_room:
  assumes "\<forall>s \<in> set (sockets st). sid s = k \<longrightarrow> k \<in> rooms s"
  shows "Emit k ''document:update'' p \<notin> set (snd (handleDocumentEdit e k d c st))"
proof (cases "socket_lookup st k")
  case None
  then show ?thesis by (simp add: handleDocumentEdit_def)
next
  case (Some sock)
  then have k: "sid sock = k" by (rule socket_lookup_sid)
  have "k \<notin> set (socket_to (sockets st) k d)"
    using assms by (auto simp: socket_to_def io_to_except_def)
  with Some k show ?thesis
    by (auto simp: handleDocumentEdit_def edit_prepare_def edit_commit_def edit_failed_def
          Let_def emit_to_mem split: option.splits if_splits sum.splits)
qed

lemma no_relayed_echo_while_in_own_room:
  assumes "\<forall>s \<in> set (sockets st). sid s = up_socketId m \<longrightarrow> up_socketId m \<in> rooms s"
  shows "Emit (up_socketId m) ev q \<notin> set (on_document_updates st m)"
  using assms by (auto simp: on_document_updates_def emit_to_mem io_to_except_def)

lemma session_left_own_room:
  "run [Leave calm ''sA'' ''sA''] session =
     session\<lparr>sockets := [\<lparr>sid = ''sA'', suser = alice, rooms = {''d1''}, currentDocument = None\<rparr>,
                          seated ''sB'' bob ''d1'', fresh ''sC'' carol, fresh ''sD'' dave]\<rparr>"
  by (simp add: handleDocumentLeave_def socket_lookup_def update_socket_def Let_def
        session_def fresh_def seated_def alice_def calm_def fun_eq_iff)

text \<open>
  Claim C6. The code breaks it. The handler of \<open>document:leave\<close> calls \<open>socket.leave\<close>
  with whatever id the client sent. alice, who is in the room of \<open>d1\<close> with bob, sends
  a leave that names her own socket id \<open>sA\<close>: her socket is then out of the room
  \<open>sA\<close> and still in the room of \<open>d1\<close>. Her next edit of \<open>d1\<close> is sent as
  \<open>document:update\<close> to her own socket as well as to bob's, by the handler itself and
  again by the subscription when the relay delivers the published message.
\<close>

theorem editor_echo_after_leaving_own_room:
  "snd (handleDocumentEdit calm ''sA'' ''d1'' ''hello'' (run [Leave calm ''sA'' ''sA''] session))
     = [Publish ''document:updates'' (UpdateP hello_update),
        Emit ''sA'' ''document:update'' (UpdateP hello_update),
        Emit ''sB'' ''document:update'' (UpdateP hello_update)]
   \<and> on_document_updates (run [Leave calm ''sA'' ''sA''] session) hello_update
     = [Emit ''sA'' ''document:update'' (UpdateP hello_update),
        Emit ''sB'' ''document:update'' (UpdateP hello_update)]"
  unfolding session_left_own_room
  by (simp add: handleDocumentEdit_def socket_lookup_def edit_prepare_def edit_commit_def
        on_document_updates_def hasWriteAccess_def number_add1_def socket_to_def io_to_except_def
        emit_to_def Let_def hello_update_def session_def fresh_def seated_def alice_def bob_def
        carol_def dave_def calm_def doc_notes_def)

subsection \<open>Cursor and typing signals\<close>




subsection \<open>What each handler leaves alone\<close>

lemma cursor_state: "fst (handleCursorPosition e k d p st) = st"
  by (simp add: handleCursorPosition_def Let_def split: option.splits)

lemma typing_state: "fst (handleTypingIndicator k d t st) = st"
  by (simp add: handleTypingIndicator_def split: option.splits)

lemma edit_activeUsers: "activeUsers (fst (handleDocumentEdit e k d c st)) = activeUsers st"
  by (simp add: handleDocumentEdit_def edit_prepare_def edit_commit_def Let_def
        split: option.splits sum.splits)

subsection \<open>Edit: versions\<close>


lemma number_add1_stuck: "number_add1 (2 ^ 53) = 2 ^ 53"
  by (simp add: number_add1_def)








subsection \<open>The map of active users\<close>

lemma join_keeps_members:
  assumes "\<And>x. activeUsers st x \<noteq> Some {}"
  shows "activeUsers (fst (handleDocumentJoin e k d st)) d' \<noteq> Some {}"
  using assms
  by (auto simp: handleDocumentJoin_def update_socket_def Let_def split: option.splits if_splits)

lemma leave_keeps_members:
  assumes "\<And>x. activeUsers st x \<noteq> Some {}"
  shows "activeUsers (fst (handleDocumentLeave e k d st)) d' \<noteq> Some {}"
  using assms
  by (auto simp: handleDocumentLeave_def update_socket_def Let_def split: option.splits if_splits)

lemma disconnection_keeps_members:
  assumes "\<And>x. activeUsers st x \<noteq> Some {}"
  shows "activeUsers (fst (handleDisconnection e k st)) d' \<noteq> Some {}"
  using assms leave_keeps_members
  by (simp add: handleDisconnection_def split: option.splits)

lemma step_keeps_members:
  assumes "\<And>x. activeUsers st x \<noteq> Some {}"
  shows "activeUsers (fst (step ev st)) d' \<noteq> Some {}"
proof (cases ev)
  case (Disconnect e k)
  with disconnection_keeps_members [OF assms] show ?thesis
    by (simp add: remove_socket_def Let_def)
next
  case (Join e k d)
  with join_keeps_members [OF assms] show ?thesis by simp
next
  case (Leave e k d)
  with leave_keeps_members [OF assms] show ?thesis by simp
qed (use assms in \<open>simp_all add: connect_def edit_activeUsers cursor_state typing_state\<close>)

lemma run_keeps_members:
  "(\<And>x. activeUsers st x \<noteq> Some {}) \<Longrightarrow> activeUsers (run evs st) d' \<noteq> Some {}"
proof (induction evs arbitrary: st)
  case Nil
  then show ?case by simp
next
  case (Cons ev evs)
  show ?case
    using Cons.IH [of "fst (step ev st)"] step_keeps_members [of st ev] Cons.prems
    by simp
qed

text \<open>
  Claim C10. An instance starts with an empty \<open>activeUsers\<close> map. After any sequence of
  events (connections, joins, leaves, edits, cursor and typing signals, disconnects, relay
  deliveries, with any of the external calls failing), every document id that is a key
  of the map has a non-empty set of user ids.
\<close>

theorem activeUsers_sets_nonempty:
  assumes "activeUsers st0 = Map.empty" and "activeUsers (run evs st0) d = Some S"
  shows "S \<noteq> {}"
proof -
  have "activeUsers st0 x \<noteq> Some {}" for x using assms(1) by simp
  then have "activeUsers (run evs st0) d \<noteq> Some {}" by (rule run_keeps_members)
  with assms(2) show ?thesis by auto
qed

lemma lobby_join_sA:
  "activeUsers (fst (handleDocumentJoin calm ''sA'' ''d1'' lobby)) ''d1'' = Some {1}"
  by (simp add: handleDocumentJoin_def socket_lookup_def hasAccess_def update_socket_def Let_def
        lobby_def doc_notes_def fresh_def alice_def calm_def)

theorem activeUsers_sets_nonempty_witness:
  "activeUsers lobby = Map.empty
   \<and> activeUsers (run [Join calm ''sA'' ''d1''] lobby) ''d1'' = Some {1}
   \<and> {1 :: int} \<noteq> {}"
proof -
  have a: "activeUsers lobby = Map.empty" by (simp add: lobby_def)
  have b: "activeUsers (run [Join calm ''sA'' ''d1''] lobby) ''d1'' = Some {1}"
    by (simp add: lobby_join_sA)
  from activeUsers_sets_nonempty [OF a b] a b show ?thesis by blast
qed

subsection \<open>Join: a failing presence store\<close>

lemma update_socket_fields:
  "activeUsers (update_socket k f st) = activeUsers st"
  "docs (update_socket k f st) = docs st"
  "presence (update_socket k f st) = presence st"
  by (simp_all add: update_socket_def)

lemma lookup_ignores_other_fields:
  "socket_lookup (st\<lparr>activeUsers := a\<rparr>) k = socket_lookup st k"
  "socket_lookup (st\<lparr>presence := p\<rparr>) k = socket_lookup st k"
  "socket_lookup (st\<lparr>docs := ds\<rparr>) k = socket_lookup st k"
  by (simp_all add: socket_lookup_def)

text \<open>
  Claim C2, amended. When the write to the presence store fails, the sender gets the
  error \<open>Failed to join document\<close> and nothing is undone: the socket is in the room of
  the document, the document is its current document, and the identity is in the set
  of the document in \<open>activeUsers\<close>. The presence store is as before, and no presence
  message and no document content is sent.
\<close>

theorem join_presence_failure_keeps_membership:
  assumes "socket_lookup st k = Some sock" and "\<not> findById_throws e"
    and "docs st d = Some doc" and "hasAccess doc (u_userId (suser sock))"
    and "sAdd_throws e"
  shows "socket_lookup (fst (handleDocumentJoin e k d st)) k
           = Some (sock\<lparr>rooms := insert d (rooms sock), currentDocument := Some d\<rparr>)
       \<and> activeUsers (fst (handleDocumentJoin e k d st)) d
           = Some (insert (u_userId (suser sock)) (case activeUsers st d of None \<Rightarrow> {} | Some S \<Rightarrow> S))
       \<and> presence (fst (handleDocumentJoin e k d st)) = presence st
       \<and> snd (handleDocumentJoin e k d st) = [Emit k ''error'' (ErrorP ''Failed to join document'')]"
proof -
  let ?f = "\<lambda>s. s\<lparr>rooms := insert d (rooms s), currentDocument := Some d\<rparr>"
  have look: "socket_lookup (update_socket k ?f st) k = Some (?f sock)"
    using assms(1) by (simp add: socket_lookup_update)
  from assms look show ?thesis
    by (simp add: handleDocumentJoin_def Let_def join_failed_def update_socket_fields
          lookup_ignores_other_fields)
qed

lemma lobby_lookup_sA: "socket_lookup lobby ''sA'' = Some (fresh ''sA'' alice)"
  by (simp add: socket_lookup_def lobby_def fresh_def)

theorem join_presence_failure_keeps_membership_witness:
  "socket_lookup lobby ''sA'' = Some (fresh ''sA'' alice)
   \<and> \<not> findById_throws (calm\<lparr>sAdd_throws := True\<rparr>)
   \<and> docs lobby ''d1'' = Some doc_notes
   \<and> hasAccess doc_notes (u_userId (suser (fresh ''sA'' alice)))
   \<and> sAdd_throws (calm\<lparr>sAdd_throws := True\<rparr>)
   \<and> socket_lookup (fst (handleDocumentJoin (calm\<lparr>sAdd_throws := True\<rparr>) ''sA'' ''d1'' lobby)) ''sA''
       = Some (seated ''sA'' alice ''d1'')
   \<and> snd (handleDocumentJoin (calm\<lparr>sAdd_throws := True\<rparr>) ''sA'' ''d1'' lobby)
       = [Emit ''sA'' ''error'' (ErrorP ''Failed to join document'')]"
proof -
  have a: "socket_lookup lobby ''sA'' = Some (fresh ''sA'' alice)" by (rule lobby_lookup_sA)
  have b: "\<not> findById_throws (calm\<lparr>sAdd_throws := True\<rparr>)" by (simp add: calm_def)
  have c: "docs lobby ''d1'' = Some doc_notes" by (simp add: lobby_def)
  have d: "hasAccess doc_notes (u_userId (suser (fresh ''sA'' alice)))"
    by (simp add: hasAccess_def doc_notes_def fresh_def alice_def)
  have f: "sAdd_throws (calm\<lparr>sAdd_throws := True\<rparr>)" by simp
  note r = join_presence_failure_keeps_membership [OF a b c d f]
  from r have g: "socket_lookup (fst (handleDocumentJoin (calm\<lparr>sAdd_throws := True\<rparr>) ''sA'' ''d1'' lobby)) ''sA''
       = Some (seated ''sA'' alice ''d1'')"
    by (simp add: fresh_def seated_def insert_commute)
  from r have h: "snd (handleDocumentJoin (calm\<lparr>sAdd_throws := True\<rparr>) ''sA'' ''d1'' lobby)
       = [Emit ''sA'' ''error'' (ErrorP ''Failed to join document'')]"
    by blast
  from a b c d f g h show ?thesis by blast
qed

text \<open>
  Claim C2, as stated, fails: alice, who has joined nothing, asks to join \<open>d1\<close> and the
  write to the presence store fails. She is sent an error, and afterwards her socket is
  in the room of \<open>d1\<close> with \<open>d1\<close> as current document, and the \<open>activeUsers\<close> map,
  which had no entry for \<open>d1\<close>, has the entry \<open>{1}\<close>.
\<close>

theorem join_presence_failure_counterexample:
  "socket_lookup lobby ''sA'' = Some (fresh ''sA'' alice)
   \<and> activeUsers lobby ''d1'' = None
   \<and> socket_lookup (fst (handleDocumentJoin (calm\<lparr>sAdd_throws := True\<rparr>) ''sA'' ''d1'' lobby)) ''sA''
       = Some \<lparr>sid = ''sA'', suser = alice, rooms = {''sA'', ''d1''}, currentDocument = Some ''d1''\<rparr>
   \<and> activeUsers (fst (handleDocumentJoin (calm\<lparr>sAdd_throws := True\<rparr>) ''sA'' ''d1'' lobby)) ''d1''
       = Some {1}
   \<and> snd (handleDocumentJoin (calm\<lparr>sAdd_throws := True\<rparr>) ''sA'' ''d1'' lobby)
       = [Emit ''sA'' ''error'' (ErrorP ''Failed to join document'')]"
  by (simp add: handleDocumentJoin_def socket_lookup_def hasAccess_def update_socket_def Let_def
        join_failed_def lobby_def doc_notes_def fresh_def alice_def calm_def insert_commute)

subsection \<open>Join: while joined to another document\<close>

lemma presence_payload_in_emit_to:
  "Emit k' ev (PresenceP pd) \<in> set (emit_to ks ev' (PresenceP pd')) \<Longrightarrow> pd = pd'"
  by (auto simp: emit_to_def)

text \<open>
  Claim C3, amended. A join that passes the access check does nothing about the rooms the
  socket is already in: the new room is added to them and the current document is
  overwritten. For every other document the entries of \<open>activeUsers\<close> and of the
  presence store stay as they were, and every presence message the join publishes or
  sends is about the new document and says \<open>joined\<close>. So a socket has one current
  document, and it can be in the rooms of several documents.
\<close>

theorem join_keeps_prior_rooms:
  assumes "socket_lookup st k = Some sock" and "\<not> findById_throws e"
    and "docs st d = Some doc" and "hasAccess doc (u_userId (suser sock))"
  shows "socket_lookup (fst (handleDocumentJoin e k d st)) k
           = Some (sock\<lparr>rooms := insert d (rooms sock), currentDocument := Some d\<rparr>)
       \<and> (\<forall>d'. d' \<noteq> d \<longrightarrow>
              activeUsers (fst (handleDocumentJoin e k d st)) d' = activeUsers st d'
            \<and> presence (fst (handleDocumentJoin e k d st)) d' = presence st d')
       \<and> (\<forall>ch k' ev pd. Publish ch (PresenceP pd) \<in> set (snd (handleDocumentJoin e k d st))
              \<or> Emit k' ev (PresenceP pd) \<in> set (snd (handleDocumentJoin e k d st)) \<longrightarrow>
              p_documentId pd = d \<and> p_action pd = ''joined'')"
proof -
  let ?f = "\<lambda>s. s\<lparr>rooms := insert d (rooms s), currentDocument := Some d\<rparr>"
  have look: "socket_lookup (update_socket k ?f st) k = Some (?f sock)"
    using assms(1) by (simp add: socket_lookup_update)
  have p1: "socket_lookup (fst (handleDocumentJoin e k d st)) k = Some (?f sock)"
    using assms look
    by (simp add: handleDocumentJoin_def Let_def update_socket_fields lookup_ignores_other_fields)
  have p2: "activeUsers (fst (handleDocumentJoin e k d st)) d' = activeUsers st d'
            \<and> presence (fst (handleDocumentJoin e k d st)) d' = presence st d'"
    if "d' \<noteq> d" for d'
    using assms that
    by (simp add: handleDocumentJoin_def Let_def update_socket_fields)
  have p3: "p_documentId pd = d \<and> p_action pd = ''joined''"
    if "Publish ch (PresenceP pd) \<in> set (snd (handleDocumentJoin e k d st))
        \<or> Emit k' ev (PresenceP pd) \<in> set (snd (handleDocumentJoin e k d st))"
    for ch k' ev pd
    using assms that
    by (auto simp: handleDocumentJoin_def Let_def join_failed_def publish_not_in_emit_to
          split: if_splits dest: presence_payload_in_emit_to)
  from p1 p2 p3 show ?thesis by blast
qed

theorem join_keeps_prior_rooms_witness:
  "socket_lookup session ''sA'' = Some (seated ''sA'' alice ''d1'')
   \<and> \<not> findById_throws calm
   \<and> docs session ''d2'' = Some doc_plan
   \<and> hasAccess doc_plan (u_userId (suser (seated ''sA'' alice ''d1'')))
   \<and> socket_lookup (fst (handleDocumentJoin calm ''sA'' ''d2'' session)) ''sA''
       = Some \<lparr>sid = ''sA'', suser = alice, rooms = {''sA'', ''d1'', ''d2''}, currentDocument = Some ''d2''\<rparr>
   \<and> activeUsers (fst (handleDocumentJoin calm ''sA'' ''d2'' session)) ''d1'' = Some {1, 2}"
proof -
  have a: "socket_lookup session ''sA'' = Some (seated ''sA'' alice ''d1'')"
    by (rule session_lookup_sA)
  have b: "\<not> findById_throws calm" by (simp add: calm_def)
  have c: "docs session ''d2'' = Some doc_plan" by (simp add: session_def)
  have d: "hasAccess doc_plan (u_userId (suser (seated ''sA'' alice ''d1'')))"
    by (simp add: hasAccess_def doc_plan_def seated_def alice_def)
  note r = join_keeps_prior_rooms [OF a b c d]
  from r have g: "socket_lookup (fst (handleDocumentJoin calm ''sA'' ''d2'' session)) ''sA''
       = Some \<lparr>sid = ''sA'', suser = alice, rooms = {''sA'', ''d1'', ''d2''}, currentDocument = Some ''d2''\<rparr>"
    by (simp add: seated_def insert_commute)
  from r have "activeUsers (fst (handleDocumentJoin calm ''sA'' ''d2'' session)) ''d1''
       = activeUsers session ''d1''"
    by simp
  then have h: "activeUsers (fst (handleDocumentJoin calm ''sA'' ''d2'' session)) ''d1'' = Some {1, 2}"
    by (simp add: session_def)
  from a b c d g h show ?thesis by blast
qed

text \<open>
  Claim C3, as stated, fails: alice has joined \<open>d1\<close> and asks to join \<open>d2\<close>. The join
  succeeds; afterwards her socket is in the rooms of both documents, she is still in the
  set of \<open>d1\<close> in \<open>activeUsers\<close> and in the presence store, and the only presence
  message is the one about her joining \<open>d2\<close>: nothing of a leave of \<open>d1\<close> is done.
\<close>

theorem join_second_document_counterexample:
  "socket_lookup session ''sA''
       = Some \<lparr>sid = ''sA'', suser = alice, rooms = {''sA'', ''d1''}, currentDocument = Some ''d1''\<rparr>
   \<and> socket_lookup (fst (handleDocumentJoin calm ''sA'' ''d2'' session)) ''sA''
       = Some \<lparr>sid = ''sA'', suser = alice, rooms = {''sA'', ''d1'', ''d2''}, currentDocument = Some ''d2''\<rparr>
   \<and> activeUsers (fst (handleDocumentJoin calm ''sA'' ''d2'' session)) ''d1'' = Some {1, 2}
   \<and> activeUsers (fst (handleDocumentJoin calm ''sA'' ''d2'' session)) ''d2'' = Some {1}
   \<and> presence (fst (handleDocumentJoin calm ''sA'' ''d2'' session)) ''d1'' = {1, 2}
   \<and> snd (handleDocumentJoin calm ''sA'' ''d2'' session)
       = [Publish ''document:presence'' (PresenceP \<lparr>p_documentId = ''d2'', p_userId = 1,
            p_username = ''alice'', p_action = ''joined'', p_activeUsers = {1}\<rparr>),
          Emit ''sA'' ''user:presence'' (PresenceP \<lparr>p_documentId = ''d2'', p_userId = 1,
            p_username = ''alice'', p_action = ''joined'', p_activeUsers = {1}\<rparr>),
          Emit ''sA'' ''document:content'' (ContentP ''d2'' [] ''Plan'' 1)]"
  by (simp add: handleDocumentJoin_def socket_lookup_def hasAccess_def update_socket_def Let_def
        io_to_def emit_to_def session_def doc_plan_def fresh_def seated_def alice_def bob_def
        calm_def insert_commute)

end
